theory Spec2Isabelle
  imports Complex_Main "HOL-Library.AList" "HOL-Library.Word"
begin

section \<open>Data model\<close>

text \<open>
  A \<^verbatim>\<open>UUID\<close> is a 128-bit value and only ever compared for equality. A naive
  \<^verbatim>\<open>datetime\<close> is a point on a discrete time line (microseconds), totally ordered.
  A finite Python \<^verbatim>\<open>float\<close> is a rational number and the code only compares floats
  (with each other and with integers, exactly), so a float is modelled by the real number
  it denotes; NaN and the infinities are outside the model. A Python \<^verbatim>\<open>str\<close> is
  modelled by its UTF-8 encoding, a \<^typ>\<open>string\<close>: two texts are equal exactly when their
  encodings are, the empty text is the empty encoding, and a text is ASCII exactly when
  every character of its encoding is below 128.
\<close>

type_synonym UUID = "128 word"
type_synonym datetime = int

text \<open>
  Modelled from the spec: the module \<^verbatim>\<open>listings/address.py\<close> with the classes
  \<^verbatim>\<open>AddressCreate\<close> and \<^verbatim>\<open>AddressRead\<close> is missing from the sources. The
  specification lists street, city, state, postal code and country as text, with street
  and city required and state, postal code and country optional; \<^verbatim>\<open>AddressRead\<close> adds
  the identifier and the two timestamps that \<^verbatim>\<open>make_address_read\<close> passes to it.
\<close>

record AddressCreate =
  ac_street :: string
  ac_city :: string
  ac_state :: "string option"
  ac_postal_code :: "string option"
  ac_country :: "string option"

record AddressRead =
  ar_id :: UUID
  ar_street :: string
  ar_city :: string
  ar_state :: "string option"
  ar_postal_code :: "string option"
  ar_country :: "string option"
  ar_created_at :: datetime
  ar_updated_at :: datetime

text \<open>\<^verbatim>\<open>ListingBase\<close> with the \<^verbatim>\<open>address\<close> field of \<^verbatim>\<open>ListingCreate\<close>.\<close>

record ListingCreate =
  lc_title :: string
  lc_description :: "string option"
  lc_monthly_rent :: real
  lc_num_bedrooms :: int
  lc_num_bathrooms :: int
  lc_square_feet :: "int option"
  lc_amenities :: "string list"
  lc_is_available :: bool
  lc_address :: AddressCreate

text \<open>\<^verbatim>\<open>ListingBase\<close> with the fields \<^verbatim>\<open>ListingRead\<close> adds.\<close>

record ListingRead =
  lr_id :: UUID
  lr_title :: string
  lr_description :: "string option"
  lr_monthly_rent :: real
  lr_num_bedrooms :: int
  lr_num_bathrooms :: int
  lr_square_feet :: "int option"
  lr_amenities :: "string list"
  lr_is_available :: bool
  lr_address :: AddressRead
  lr_created_at :: datetime
  lr_updated_at :: datetime

text \<open>The query parameters of \<^verbatim>\<open>list_listings\<close>; \<^verbatim>\<open>None\<close> is a missing parameter.\<close>

record ListingQuery =
  q_min_rent :: "real option"
  q_max_rent :: "real option"
  q_min_bedrooms :: "int option"
  q_max_bedrooms :: "int option"
  q_min_bathrooms :: "real option"
  q_max_bathrooms :: "real option"
  q_min_sqft :: "int option"
  q_max_sqft :: "int option"
  q_amenities :: "string list option"
  q_city :: "string option"
  q_state :: "string option"
  q_is_available :: "bool option"

definition no_filters :: ListingQuery where
  "no_filters = \<lparr>q_min_rent = None, q_max_rent = None, q_min_bedrooms = None,
     q_max_bedrooms = None, q_min_bathrooms = None, q_max_bathrooms = None,
     q_min_sqft = None, q_max_sqft = None, q_amenities = None, q_city = None,
     q_state = None, q_is_available = None\<rparr>"

datatype HTTPException = HTTPException (status_code: nat) (detail: string)

section \<open>The in-memory store and the environment\<close>

text \<open>
  A Python \<^verbatim>\<open>dict\<close> keeps its keys in insertion order: assigning to a present key
  replaces the value in place, assigning to a new key appends, \<^verbatim>\<open>del\<close> removes the
  entry, and \<^verbatim>\<open>values()\<close> lists the values in that order.
\<close>

type_synonym ('k, 'v) pydict = "('k \<times> 'v) list"

definition dict_get :: "('k, 'v) pydict \<Rightarrow> 'k \<Rightarrow> 'v option" where
  "dict_get d k = map_of d k"

definition dict_contains :: "('k, 'v) pydict \<Rightarrow> 'k \<Rightarrow> bool" where
  "dict_contains d k = (map_of d k \<noteq> None)"

definition dict_setitem :: "('k, 'v) pydict \<Rightarrow> 'k \<Rightarrow> 'v \<Rightarrow> ('k, 'v) pydict" where
  "dict_setitem d k v = AList.update k v d"

definition dict_delitem :: "('k, 'v) pydict \<Rightarrow> 'k \<Rightarrow> ('k, 'v) pydict" where
  "dict_delitem d k = AList.delete k d"

definition dict_values :: "('k, 'v) pydict \<Rightarrow> 'v list" where
  "dict_values d = map snd d"

text \<open>
  The process state: the global \<^verbatim>\<open>listings_db\<close>, and what the code reads from its
  environment. \<^verbatim>\<open>datetime.utcnow()\<close> returns the next reading of the clock and
  \<^verbatim>\<open>uuid4()\<close> the next generated identifier; the n-th call of each is answered by the
  n-th element of a sequence fixed by the environment. \<^verbatim>\<open>str.lower()\<close> lower-cases a
  text that has a character beyond ASCII by the Unicode character database of the
  interpreter, which is no part of the sources: \<^verbatim>\<open>unicode_lower\<close> gives the lower-case
  form of such a text, which is never empty, as its first character and the rest.
\<close>

record world =
  listings_db :: "(UUID, ListingRead) pydict"
  utc_clock :: "nat \<Rightarrow> datetime"
  clock_reads :: nat
  uuid_source :: "nat \<Rightarrow> UUID"
  uuid_draws :: nat
  unicode_lower :: "string \<Rightarrow> char \<times> string"

definition utcnow :: "world \<Rightarrow> datetime \<times> world" where
  "utcnow w = (utc_clock w (clock_reads w), w\<lparr>clock_reads := Suc (clock_reads w)\<rparr>)"

definition uuid4 :: "world \<Rightarrow> UUID \<times> world" where
  "uuid4 w = (uuid_source w (uuid_draws w), w\<lparr>uuid_draws := Suc (uuid_draws w)\<rparr>)"

definition initial_world ::
  "(nat \<Rightarrow> datetime) \<Rightarrow> (nat \<Rightarrow> UUID) \<Rightarrow> (string \<Rightarrow> char \<times> string) \<Rightarrow> world" where
  "initial_world clk ids low =
     \<lparr>listings_db = [], utc_clock = clk, clock_reads = 0, uuid_source = ids, uuid_draws = 0,
      unicode_lower = low\<rparr>"

section \<open>Builders\<close>

definition make_address_read :: "AddressCreate \<Rightarrow> world \<Rightarrow> AddressRead \<times> world" where
  "make_address_read addr w =
     (let (now, w1) = utcnow w;
          (new_id, w2) = uuid4 w1
      in (\<lparr>ar_id = new_id,
           ar_street = ac_street addr,
           ar_city = ac_city addr,
           ar_state = ac_state addr,
           ar_postal_code = ac_postal_code addr,
           ar_country = ac_country addr,
           ar_created_at = now,
           ar_updated_at = now\<rparr>, w2))"

text \<open>\<^verbatim>\<open>payload.amenities or []\<close>: an empty list is falsy and is replaced by \<^verbatim>\<open>[]\<close>.\<close>

definition make_listing_read :: "ListingCreate \<Rightarrow> world \<Rightarrow> ListingRead \<times> world" where
  "make_listing_read payload w =
     (let (now, w1) = utcnow w;
          (new_id, w2) = uuid4 w1;
          (address, w3) = make_address_read (lc_address payload) w2
      in (\<lparr>lr_id = new_id,
           lr_title = lc_title payload,
           lr_description = lc_description payload,
           lr_monthly_rent = lc_monthly_rent payload,
           lr_num_bedrooms = lc_num_bedrooms payload,
           lr_num_bathrooms = lc_num_bathrooms payload,
           lr_square_feet = lc_square_feet payload,
           lr_amenities = (if lc_amenities payload \<noteq> [] then lc_amenities payload else []),
           lr_is_available = lc_is_available payload,
           lr_address = address,
           lr_created_at = now,
           lr_updated_at = now\<rparr>, w3))"

section \<open>Listing endpoints\<close>

text \<open>
  A handler either raises an \<^verbatim>\<open>HTTPException\<close> or returns a body, which the route
  decorator sends with its status code (201 for create, 204 for delete, 200 otherwise).
\<close>

definition create_listing ::
  "ListingCreate \<Rightarrow> world \<Rightarrow> (HTTPException + nat \<times> ListingRead) \<times> world" where
  "create_listing payload w =
     (let (listing, w1) = make_listing_read payload w
      in if dict_contains (listings_db w1) (lr_id listing)
         then (Inl (HTTPException 400 ''Listing with this ID already exists''), w1)
         else (let w2 = w1\<lparr>listings_db := dict_setitem (listings_db w1) (lr_id listing) listing\<rparr>
               in case dict_get (listings_db w2) (lr_id listing) of
                    Some stored \<Rightarrow> (Inr (201, stored), w2)
                  | None \<Rightarrow> (Inl (HTTPException 500 ''KeyError''), w2)))"

text \<open>
  \<^verbatim>\<open>str.lower()\<close>: in an ASCII text the letters A to Z move to a to z and every other
  character stays; a text with a character beyond ASCII is lower-cased by the Unicode
  character database.
\<close>

definition is_ascii :: "char \<Rightarrow> bool" where
  "is_ascii c = (of_char c < (128::nat))"

definition lower_char :: "char \<Rightarrow> char" where
  "lower_char c =
     (if (65::nat) \<le> of_char c \<and> of_char c \<le> (90::nat)
      then char_of (of_char c + (32::nat)) else c)"

definition lower :: "(string \<Rightarrow> char \<times> string) \<Rightarrow> string \<Rightarrow> string" where
  "lower low s =
     (if list_all is_ascii s then map lower_char s
      else (case low s of (c, cs) \<Rightarrow> c # cs))"

text \<open>\<^verbatim>\<open>l.square_feet or 0\<close>: \<^verbatim>\<open>None\<close> and \<^verbatim>\<open>0\<close> are falsy and give \<^verbatim>\<open>0\<close>.\<close>

definition square_feet_or_0 :: "ListingRead \<Rightarrow> int" where
  "square_feet_or_0 l =
     (case lr_square_feet l of None \<Rightarrow> 0 | Some v \<Rightarrow> if v \<noteq> 0 then v else 0)"

text \<open>
  \<^verbatim>\<open>l.address.state and l.address.state.lower() == state.lower()\<close>: a missing or
  empty state is falsy and ends the test.
\<close>

definition state_matches :: "(string \<Rightarrow> char \<times> string) \<Rightarrow> ListingRead \<Rightarrow> string \<Rightarrow> bool" where
  "state_matches low l state =
     (case ar_state (lr_address l) of
        None \<Rightarrow> False
      | Some s \<Rightarrow> if s = [] then False else lower low s = lower low state)"

definition list_listings :: "ListingQuery \<Rightarrow> world \<Rightarrow> ListingRead list" where
  "list_listings q w =
     (let results = dict_values (listings_db w);
          results = (case q_min_rent q of None \<Rightarrow> results
            | Some min_rent \<Rightarrow> [l \<leftarrow> results. lr_monthly_rent l \<ge> min_rent]);
          results = (case q_max_rent q of None \<Rightarrow> results
            | Some max_rent \<Rightarrow> [l \<leftarrow> results. lr_monthly_rent l \<le> max_rent]);
          results = (case q_min_bedrooms q of None \<Rightarrow> results
            | Some min_bedrooms \<Rightarrow> [l \<leftarrow> results. lr_num_bedrooms l \<ge> min_bedrooms]);
          results = (case q_max_bedrooms q of None \<Rightarrow> results
            | Some max_bedrooms \<Rightarrow> [l \<leftarrow> results. lr_num_bedrooms l \<le> max_bedrooms]);
          results = (case q_min_bathrooms q of None \<Rightarrow> results
            | Some min_bathrooms \<Rightarrow>
                [l \<leftarrow> results. real_of_int (lr_num_bathrooms l) \<ge> min_bathrooms]);
          results = (case q_max_bathrooms q of None \<Rightarrow> results
            | Some max_bathrooms \<Rightarrow>
                [l \<leftarrow> results. real_of_int (lr_num_bathrooms l) \<le> max_bathrooms]);
          results = (case q_min_sqft q of None \<Rightarrow> results
            | Some min_sqft \<Rightarrow> [l \<leftarrow> results. square_feet_or_0 l \<ge> min_sqft]);
          results = (case q_max_sqft q of None \<Rightarrow> results
            | Some max_sqft \<Rightarrow> [l \<leftarrow> results. square_feet_or_0 l \<le> max_sqft]);
          results = (case q_is_available q of None \<Rightarrow> results
            | Some is_available \<Rightarrow> [l \<leftarrow> results. lr_is_available l = is_available]);
          results = (case q_amenities q of None \<Rightarrow> results
            | Some amenities \<Rightarrow>
                if amenities \<noteq> []
                then [l \<leftarrow> results. list_all (\<lambda>a. a \<in> set (lr_amenities l)) amenities]
                else results);
          results = (case q_city q of None \<Rightarrow> results
            | Some city \<Rightarrow>
                if city \<noteq> []
                then [l \<leftarrow> results.
                  lower (unicode_lower w) (ar_city (lr_address l)) = lower (unicode_lower w) city]
                else results);
          results = (case q_state q of None \<Rightarrow> results
            | Some state \<Rightarrow>
                if state \<noteq> []
                then [l \<leftarrow> results. state_matches (unicode_lower w) l state]
                else results)
      in results)"

text \<open>
  The tests of \<^verbatim>\<open>list_listings\<close> on one record, taken together: the conditions of
  the list comprehensions the query switches on.
\<close>

definition accepted :: "world \<Rightarrow> ListingQuery \<Rightarrow> ListingRead \<Rightarrow> bool" where
  "accepted w q l \<longleftrightarrow>
     (case q_min_rent q of None \<Rightarrow> True | Some m \<Rightarrow> m \<le> lr_monthly_rent l) \<and>
     (case q_max_rent q of None \<Rightarrow> True | Some m \<Rightarrow> lr_monthly_rent l \<le> m) \<and>
     (case q_min_bedrooms q of None \<Rightarrow> True | Some n \<Rightarrow> n \<le> lr_num_bedrooms l) \<and>
     (case q_max_bedrooms q of None \<Rightarrow> True | Some n \<Rightarrow> lr_num_bedrooms l \<le> n) \<and>
     (case q_min_bathrooms q of None \<Rightarrow> True
      | Some m \<Rightarrow> m \<le> real_of_int (lr_num_bathrooms l)) \<and>
     (case q_max_bathrooms q of None \<Rightarrow> True
      | Some m \<Rightarrow> real_of_int (lr_num_bathrooms l) \<le> m) \<and>
     (case q_min_sqft q of None \<Rightarrow> True | Some n \<Rightarrow> n \<le> square_feet_or_0 l) \<and>
     (case q_max_sqft q of None \<Rightarrow> True | Some n \<Rightarrow> square_feet_or_0 l \<le> n) \<and>
     (case q_is_available q of None \<Rightarrow> True | Some b \<Rightarrow> lr_is_available l = b) \<and>
     (case q_amenities q of None \<Rightarrow> True
      | Some tags \<Rightarrow> tags \<noteq> [] \<longrightarrow> list_all (\<lambda>a. a \<in> set (lr_amenities l)) tags) \<and>
     (case q_city q of None \<Rightarrow> True
      | Some c \<Rightarrow> c \<noteq> [] \<longrightarrow>
          lower (unicode_lower w) (ar_city (lr_address l)) = lower (unicode_lower w) c) \<and>
     (case q_state q of None \<Rightarrow> True
      | Some s \<Rightarrow> s \<noteq> [] \<longrightarrow> state_matches (unicode_lower w) l s)"

definition update_listing ::
  "UUID \<Rightarrow> ListingCreate \<Rightarrow> world \<Rightarrow> (HTTPException + nat \<times> ListingRead) \<times> world" where
  "update_listing listing_id payload w =
     (case dict_get (listings_db w) listing_id of
        None \<Rightarrow> (Inl (HTTPException 404 ''Listing not found''), w)
      | Some existing \<Rightarrow>
          (let (new_address, w1) = make_address_read (lc_address payload) w;
               (now, w2) = utcnow w1;
               new_listing =
                 \<lparr>lr_id = listing_id,
                  lr_title = lc_title payload,
                  lr_description = lc_description payload,
                  lr_monthly_rent = lc_monthly_rent payload,
                  lr_num_bedrooms = lc_num_bedrooms payload,
                  lr_num_bathrooms = lc_num_bathrooms payload,
                  lr_square_feet = lc_square_feet payload,
                  lr_amenities = lc_amenities payload,
                  lr_is_available = lc_is_available payload,
                  lr_address = new_address,
                  lr_created_at = lr_created_at existing,
                  lr_updated_at = now\<rparr>
           in (Inr (200, new_listing),
               w2\<lparr>listings_db := dict_setitem (listings_db w2) listing_id new_listing\<rparr>)))"

definition delete_listing :: "UUID \<Rightarrow> world \<Rightarrow> (HTTPException + nat \<times> unit) \<times> world" where
  "delete_listing listing_id w =
     (if \<not> dict_contains (listings_db w) listing_id
      then (Inl (HTTPException 404 ''Course no found.''), w)
      else (Inr (204, ()), w\<lparr>listings_db := dict_delitem (listings_db w) listing_id\<rparr>))"

section \<open>Serving requests\<close>

text \<open>
  The application serves one request after the other against the same process state;
  listing reads the store and changes nothing.
\<close>

datatype request =
    Create ListingCreate
  | List_all ListingQuery
  | Update UUID ListingCreate
  | Delete UUID

fun handle :: "request \<Rightarrow> world \<Rightarrow> world" where
  "handle (Create payload) w = snd (create_listing payload w)"
| "handle (List_all q) w = w"
| "handle (Update listing_id payload) w = snd (update_listing listing_id payload w)"
| "handle (Delete listing_id) w = snd (delete_listing listing_id w)"

definition serve :: "request list \<Rightarrow> world \<Rightarrow> world" where
  "serve reqs w = fold handle reqs w"

section \<open>Notions of the specification\<close>






text \<open>
  Every stored record sits under its own identifier.
\<close>

definition stored_under_identifier :: "world \<Rightarrow> bool" where
  "stored_under_identifier w \<longleftrightarrow> list_all (\<lambda>(k, l). lr_id l = k) (listings_db w)"

text \<open>
  The timestamps of the store are in order when every stored record sits under its own
  identifier, was created no later than it was last updated, was last updated no later
  than the next reading of the clock, and embeds an address of which the same holds.
\<close>

definition timestamps_in_order :: "world \<Rightarrow> bool" where
  "timestamps_in_order w \<longleftrightarrow>
     (\<forall>(k, l) \<in> set (listings_db w).
        lr_id l = k \<and>
        lr_created_at l \<le> lr_updated_at l \<and>
        lr_updated_at l \<le> utc_clock w (clock_reads w) \<and>
        ar_created_at (lr_address l) \<le> ar_updated_at (lr_address l) \<and>
        ar_updated_at (lr_address l) \<le> utc_clock w (clock_reads w))"

text \<open>
  The record \<^verbatim>\<open>update_listing\<close> builds for an existing record: the payload's fields
  under the given identifier, the address built first, the creation timestamp of the
  existing record and the clock reading that follows the one of the address.
\<close>

definition updated_record :: "UUID \<Rightarrow> ListingCreate \<Rightarrow> ListingRead \<Rightarrow> world \<Rightarrow> ListingRead" where
  "updated_record listing_id payload existing w =
     \<lparr>lr_id = listing_id,
      lr_title = lc_title payload,
      lr_description = lc_description payload,
      lr_monthly_rent = lc_monthly_rent payload,
      lr_num_bedrooms = lc_num_bedrooms payload,
      lr_num_bathrooms = lc_num_bathrooms payload,
      lr_square_feet = lc_square_feet payload,
      lr_amenities = lc_amenities payload,
      lr_is_available = lc_is_available payload,
      lr_address = fst (make_address_read (lc_address payload) w),
      lr_created_at = lr_created_at existing,
      lr_updated_at = utc_clock w (Suc (clock_reads w))\<rparr>"

section \<open>Sample data\<close>

definition sample_address :: "string \<Rightarrow> string option \<Rightarrow> AddressRead" where
  "sample_address c s =
     \<lparr>ar_id = 500, ar_street = ''123 Main St'', ar_city = c, ar_state = s,
      ar_postal_code = Some ''10001'', ar_country = Some ''USA'',
      ar_created_at = 0, ar_updated_at = 0\<rparr>"

definition sample_listing :: "UUID \<Rightarrow> real \<Rightarrow> ListingRead" where
  "sample_listing i rent =
     \<lparr>lr_id = i, lr_title = ''Spacious 2-Bedroom Apartment in Downtown'',
      lr_description = None, lr_monthly_rent = rent, lr_num_bedrooms = 2,
      lr_num_bathrooms = 1, lr_square_feet = Some 900,
      lr_amenities = [''Gym'', ''Pool''], lr_is_available = True,
      lr_address = sample_address ''New York'' (Some ''NY''),
      lr_created_at = 0, lr_updated_at = 0\<rparr>"

definition sample_payload :: "string \<Rightarrow> real \<Rightarrow> ListingCreate" where
  "sample_payload t rent =
     \<lparr>lc_title = t, lc_description = Some ''Modern apartment close to subway.'',
      lc_monthly_rent = rent, lc_num_bedrooms = 2, lc_num_bathrooms = 1,
      lc_square_feet = Some 900, lc_amenities = [''Gym'', ''Laundry''],
      lc_is_available = True,
      lc_address = \<lparr>ac_street = ''123 Main St'', ac_city = ''New York'',
        ac_state = Some ''NY'', ac_postal_code = Some ''10001'',
        ac_country = Some ''USA''\<rparr>\<rparr>"

text \<open>
  The city of Zurich written with u-umlaut, in mixed case and in upper case, and a
  Unicode database that lower-cases both spellings to the same text and keeps every other
  text beyond ASCII as it is.
\<close>

definition zurich_mixed :: string where
  "zurich_mixed = ''Z'' @ [CHR 0xC3, CHR 0xBC] @ ''rich''"

definition zurich_upper :: string where
  "zurich_upper = ''Z'' @ [CHR 0xC3, CHR 0x9C] @ ''RICH''"

definition sample_unicode_lower :: "string \<Rightarrow> char \<times> string" where
  "sample_unicode_lower s =
     (if s = zurich_mixed \<or> s = zurich_upper
      then (CHR ''z'', [CHR 0xC3, CHR 0xBC] @ ''rich'')
      else (case s of [] \<Rightarrow> (CHR ''?'', []) | c # cs \<Rightarrow> (c, cs)))"

text \<open>
  A process whose clock reads 0, 1, 2, ... and whose generator draws the identifiers
  0, 1, 2, ..., with the given records in the store under their identifiers.
\<close>

definition sample_world :: "ListingRead list \<Rightarrow> world" where
  "sample_world ls =
     \<lparr>listings_db = map (\<lambda>l. (lr_id l, l)) ls,
      utc_clock = (\<lambda>n. int n), clock_reads = 1,
      uuid_source = (\<lambda>n. of_nat n), uuid_draws = 0,
      unicode_lower = sample_unicode_lower\<rparr>"

section \<open>The filter engine\<close>

lemma optional_filter:
  "(case x of None \<Rightarrow> rs | Some v \<Rightarrow> filter (P v) rs) =
     filter (\<lambda>l. case x of None \<Rightarrow> True | Some v \<Rightarrow> P v l) rs"
  by (cases x) simp_all

lemma truthy_filter:
  "(case x of None \<Rightarrow> rs | Some v \<Rightarrow> if v \<noteq> [] then filter (P v) rs else rs) =
     filter (\<lambda>l. case x of None \<Rightarrow> True | Some v \<Rightarrow> v \<noteq> [] \<longrightarrow> P v l) rs"
  by (cases x) simp_all

lemma square_feet_or_0_eq:
  "square_feet_or_0 l = (case lr_square_feet l of None \<Rightarrow> 0 | Some v \<Rightarrow> v)"
  by (simp add: square_feet_or_0_def split: option.split)

lemma list_listings_filter_chain:
  "list_listings q w =
     filter (\<lambda>l. case q_state q of None \<Rightarrow> True
               | Some s \<Rightarrow> s \<noteq> [] \<longrightarrow> state_matches (unicode_lower w) l s)
    (filter (\<lambda>l. case q_city q of None \<Rightarrow> True
               | Some c \<Rightarrow> c \<noteq> [] \<longrightarrow>
                   lower (unicode_lower w) (ar_city (lr_address l)) = lower (unicode_lower w) c)
    (filter (\<lambda>l. case q_amenities q of None \<Rightarrow> True
               | Some tags \<Rightarrow> tags \<noteq> [] \<longrightarrow> list_all (\<lambda>a. a \<in> set (lr_amenities l)) tags)
    (filter (\<lambda>l. case q_is_available q of None \<Rightarrow> True | Some b \<Rightarrow> lr_is_available l = b)
    (filter (\<lambda>l. case q_max_sqft q of None \<Rightarrow> True | Some n \<Rightarrow> square_feet_or_0 l \<le> n)
    (filter (\<lambda>l. case q_min_sqft q of None \<Rightarrow> True | Some n \<Rightarrow> n \<le> square_feet_or_0 l)
    (filter (\<lambda>l. case q_max_bathrooms q of None \<Rightarrow> True
               | Some m \<Rightarrow> real_of_int (lr_num_bathrooms l) \<le> m)
    (filter (\<lambda>l. case q_min_bathrooms q of None \<Rightarrow> True
               | Some m \<Rightarrow> m \<le> real_of_int (lr_num_bathrooms l))
    (filter (\<lambda>l. case q_max_bedrooms q of None \<Rightarrow> True | Some n \<Rightarrow> lr_num_bedrooms l \<le> n)
    (filter (\<lambda>l. case q_min_bedrooms q of None \<Rightarrow> True | Some n \<Rightarrow> n \<le> lr_num_bedrooms l)
    (filter (\<lambda>l. case q_max_rent q of None \<Rightarrow> True | Some m \<Rightarrow> lr_monthly_rent l \<le> m)
    (filter (\<lambda>l. case q_min_rent q of None \<Rightarrow> True | Some m \<Rightarrow> m \<le> lr_monthly_rent l)
      (dict_values (listings_db w)))))))))))))"
  unfolding list_listings_def Let_def optional_filter truthy_filter ..

lemma accepted_chain:
  "accepted w q l \<longleftrightarrow>
    ((((((((((((case q_min_rent q of None \<Rightarrow> True | Some m \<Rightarrow> m \<le> lr_monthly_rent l) \<and>
    (case q_max_rent q of None \<Rightarrow> True | Some m \<Rightarrow> lr_monthly_rent l \<le> m)) \<and>
    (case q_min_bedrooms q of None \<Rightarrow> True | Some n \<Rightarrow> n \<le> lr_num_bedrooms l)) \<and>
    (case q_max_bedrooms q of None \<Rightarrow> True | Some n \<Rightarrow> lr_num_bedrooms l \<le> n)) \<and>
    (case q_min_bathrooms q of None \<Rightarrow> True
               | Some m \<Rightarrow> m \<le> real_of_int (lr_num_bathrooms l))) \<and>
    (case q_max_bathrooms q of None \<Rightarrow> True
               | Some m \<Rightarrow> real_of_int (lr_num_bathrooms l) \<le> m)) \<and>
    (case q_min_sqft q of None \<Rightarrow> True | Some n \<Rightarrow> n \<le> square_feet_or_0 l)) \<and>
    (case q_max_sqft q of None \<Rightarrow> True | Some n \<Rightarrow> square_feet_or_0 l \<le> n)) \<and>
    (case q_is_available q of None \<Rightarrow> True | Some b \<Rightarrow> lr_is_available l = b)) \<and>
    (case q_amenities q of None \<Rightarrow> True
               | Some tags \<Rightarrow> tags \<noteq> [] \<longrightarrow> list_all (\<lambda>a. a \<in> set (lr_amenities l)) tags)) \<and>
    (case q_city q of None \<Rightarrow> True
               | Some c \<Rightarrow> c \<noteq> [] \<longrightarrow>
                   lower (unicode_lower w) (ar_city (lr_address l)) = lower (unicode_lower w) c)) \<and>
    (case q_state q of None \<Rightarrow> True
               | Some s \<Rightarrow> s \<noteq> [] \<longrightarrow> state_matches (unicode_lower w) l s))"
  unfolding accepted_def by blast

lemma list_listings_filter:
  "list_listings q w = filter (accepted w q) (dict_values (listings_db w))"
  unfolding list_listings_filter_chain filter_filter accepted_chain [abs_def] ..

lemma set_list_listings:
  "l \<in> set (list_listings q w) \<longleftrightarrow> l \<in> set (dict_values (listings_db w)) \<and> accepted w q l"
  by (auto simp: list_listings_filter)

lemma accepted_no_filters: "accepted w no_filters l"
  by (simp add: accepted_def no_filters_def)

subsection \<open>Lower case and equality up to case\<close>









lemmas sample_defs =
  sample_world_def sample_listing_def sample_address_def sample_payload_def
  no_filters_def dict_values_def


subsection \<open>The tests of the code and the criteria of the specification\<close>








section \<open>The builders and the handlers, step by step\<close>

lemma make_address_read_eq:
  "make_address_read addr w =
     (\<lparr>ar_id = uuid_source w (uuid_draws w),
       ar_street = ac_street addr,
       ar_city = ac_city addr,
       ar_state = ac_state addr,
       ar_postal_code = ac_postal_code addr,
       ar_country = ac_country addr,
       ar_created_at = utc_clock w (clock_reads w),
       ar_updated_at = utc_clock w (clock_reads w)\<rparr>,
      w\<lparr>clock_reads := Suc (clock_reads w), uuid_draws := Suc (uuid_draws w)\<rparr>)"
  by (simp add: make_address_read_def utcnow_def uuid4_def)

lemma make_listing_read_eq:
  "make_listing_read payload w =
     (\<lparr>lr_id = uuid_source w (uuid_draws w),
       lr_title = lc_title payload,
       lr_description = lc_description payload,
       lr_monthly_rent = lc_monthly_rent payload,
       lr_num_bedrooms = lc_num_bedrooms payload,
       lr_num_bathrooms = lc_num_bathrooms payload,
       lr_square_feet = lc_square_feet payload,
       lr_amenities = lc_amenities payload,
       lr_is_available = lc_is_available payload,
       lr_address =
         \<lparr>ar_id = uuid_source w (Suc (uuid_draws w)),
          ar_street = ac_street (lc_address payload),
          ar_city = ac_city (lc_address payload),
          ar_state = ac_state (lc_address payload),
          ar_postal_code = ac_postal_code (lc_address payload),
          ar_country = ac_country (lc_address payload),
          ar_created_at = utc_clock w (Suc (clock_reads w)),
          ar_updated_at = utc_clock w (Suc (clock_reads w))\<rparr>,
       lr_created_at = utc_clock w (clock_reads w),
       lr_updated_at = utc_clock w (clock_reads w)\<rparr>,
      w\<lparr>clock_reads := Suc (Suc (clock_reads w)), uuid_draws := Suc (Suc (uuid_draws w))\<rparr>)"
  by (simp add: make_listing_read_def make_address_read_eq utcnow_def uuid4_def)

lemma update_new_key: "k \<notin> fst ` set d \<Longrightarrow> AList.update k v d = d @ [(k, v)]"
  by (induction d) auto

lemma dict_get_append_new: "k \<notin> fst ` set d \<Longrightarrow> dict_get (d @ [(k, v)]) k = Some v"
  unfolding dict_get_def by (induction d) auto

lemma dict_setitem_new: "k \<notin> fst ` set d \<Longrightarrow> dict_setitem d k v = d @ [(k, v)]"
  by (simp add: dict_setitem_def update_new_key)

lemma dict_contains_iff: "dict_contains d k \<longleftrightarrow> k \<in> fst ` set d"
  by (simp add: dict_contains_def map_of_eq_None_iff)

lemma dict_get_None_iff: "dict_get d k = None \<longleftrightarrow> k \<notin> fst ` set d"
  by (simp add: dict_get_def map_of_eq_None_iff)

lemma create_listing_conflict:
  "lr_id (fst (make_listing_read payload w)) \<in> fst ` set (listings_db w) \<Longrightarrow>
   create_listing payload w =
     (Inl (HTTPException 400 ''Listing with this ID already exists''),
      snd (make_listing_read payload w))"
  by (simp add: create_listing_def dict_contains_iff make_listing_read_eq)

lemma create_listing_created:
  "lr_id (fst (make_listing_read payload w)) \<notin> fst ` set (listings_db w) \<Longrightarrow>
   create_listing payload w =
     (Inr (201, fst (make_listing_read payload w)),
      (snd (make_listing_read payload w))
        \<lparr>listings_db := listings_db w @
           [(lr_id (fst (make_listing_read payload w)), fst (make_listing_read payload w))]\<rparr>)"
  by (simp add: create_listing_def dict_contains_iff make_listing_read_eq dict_setitem_new
      dict_get_append_new Let_def)

lemma update_listing_not_found:
  "dict_get (listings_db w) listing_id = None \<Longrightarrow>
   update_listing listing_id payload w = (Inl (HTTPException 404 ''Listing not found''), w)"
  by (simp add: update_listing_def)


lemma update_listing_found:
  "dict_get (listings_db w) listing_id = Some existing \<Longrightarrow>
   update_listing listing_id payload w =
     (Inr (200, updated_record listing_id payload existing w),
      w\<lparr>clock_reads := Suc (Suc (clock_reads w)), uuid_draws := Suc (uuid_draws w),
        listings_db := AList.update listing_id
          (updated_record listing_id payload existing w) (listings_db w)\<rparr>)"
  by (simp add: update_listing_def make_address_read_eq utcnow_def dict_setitem_def
      updated_record_def Let_def)

lemma delete_listing_not_found:
  "dict_get (listings_db w) listing_id = None \<Longrightarrow>
   delete_listing listing_id w = (Inl (HTTPException 404 ''Course no found.''), w)"
  by (simp add: delete_listing_def dict_contains_def dict_get_def)

lemma delete_listing_found:
  "dict_get (listings_db w) listing_id = Some existing \<Longrightarrow>
   delete_listing listing_id w =
     (Inr (204, ()), w\<lparr>listings_db := AList.delete listing_id (listings_db w)\<rparr>)"
  by (simp add: delete_listing_def dict_contains_def dict_get_def dict_delitem_def)

lemma set_update_subset: "set (AList.update k v d) \<subseteq> insert (k, v) (set d)"
  by (induction d) auto

lemma set_delete_subset: "set (AList.delete k d) \<subseteq> set d"
  by (auto simp: AList.delete_eq)

lemma clock_le:
  "mono (utc_clock w) \<Longrightarrow> t \<le> utc_clock w n \<Longrightarrow> n \<le> m \<Longrightarrow> t \<le> utc_clock w m"
  by (meson monoD order_trans)

lemma create_listing_in_order:
  assumes "mono (utc_clock w)" and "timestamps_in_order w"
  shows "timestamps_in_order (snd (create_listing payload w))"
proof (cases "lr_id (fst (make_listing_read payload w)) \<in> fst ` set (listings_db w)")
  case True
  show ?thesis
    using assms
    by (auto simp: create_listing_conflict [OF True] make_listing_read_eq
        timestamps_in_order_def intro: clock_le)
next
  case False
  show ?thesis
    using assms
    by (auto simp: create_listing_created [OF False] make_listing_read_eq
        timestamps_in_order_def monoD intro: clock_le)
qed

lemma update_listing_in_order:
  assumes "mono (utc_clock w)" and "timestamps_in_order w"
  shows "timestamps_in_order (snd (update_listing listing_id payload w))"
proof (cases "dict_get (listings_db w) listing_id")
  case None
  then show ?thesis using assms by (simp add: update_listing_not_found)
next
  case (Some existing)
  then have mem: "(listing_id, existing) \<in> set (listings_db w)"
    by (simp add: dict_get_def map_of_SomeD)
  have old: "lr_created_at existing \<le> utc_clock w (clock_reads w)"
    using assms(2) mem by (fastforce simp: timestamps_in_order_def)
  have new: "lr_created_at existing \<le> utc_clock w (Suc (clock_reads w))"
    using clock_le [OF assms(1) old, of "Suc (clock_reads w)"] by simp
  show ?thesis
    unfolding update_listing_found [OF Some] timestamps_in_order_def
  proof (clarsimp)
    fix k l
    assume "(k, l) \<in> set (AList.update listing_id
      (updated_record listing_id payload existing w) (listings_db w))"
    then consider "k = listing_id" "l = updated_record listing_id payload existing w"
      | "(k, l) \<in> set (listings_db w)"
      using set_update_subset by fastforce
    then show "lr_id l = k \<and> lr_created_at l \<le> lr_updated_at l \<and>
        lr_updated_at l \<le> utc_clock w (Suc (Suc (clock_reads w))) \<and>
        ar_created_at (lr_address l) \<le> ar_updated_at (lr_address l) \<and>
        ar_updated_at (lr_address l) \<le> utc_clock w (Suc (Suc (clock_reads w)))"
    proof cases
      case 1
      then show ?thesis
        using new assms(1)
        by (simp add: updated_record_def make_address_read_eq monoD)
    next
      case 2
      then show ?thesis
        using assms by (fastforce simp: timestamps_in_order_def intro: clock_le)
    qed
  qed
qed

lemma delete_listing_in_order:
  assumes "timestamps_in_order w"
  shows "timestamps_in_order (snd (delete_listing listing_id w))"
proof (cases "dict_get (listings_db w) listing_id")
  case None
  then show ?thesis using assms by (simp add: delete_listing_not_found)
next
  case (Some existing)
  show ?thesis
    using assms set_delete_subset [of listing_id "listings_db w"]
    by (fastforce simp: delete_listing_found [OF Some] timestamps_in_order_def)
qed

lemma utc_clock_create [simp]: "utc_clock (snd (create_listing payload w)) = utc_clock w"
  by (cases "lr_id (fst (make_listing_read payload w)) \<in> fst ` set (listings_db w)")
     (simp_all add: create_listing_conflict create_listing_created make_listing_read_eq)

lemma utc_clock_update [simp]:
  "utc_clock (snd (update_listing listing_id payload w)) = utc_clock w"
  by (cases "dict_get (listings_db w) listing_id")
     (simp_all add: update_listing_not_found update_listing_found)

lemma utc_clock_delete [simp]: "utc_clock (snd (delete_listing listing_id w)) = utc_clock w"
  by (cases "dict_get (listings_db w) listing_id")
     (simp_all add: delete_listing_not_found delete_listing_found)

lemma utc_clock_handle [simp]: "utc_clock (handle r w) = utc_clock w"
  by (cases r) simp_all

lemma handle_in_order:
  "mono (utc_clock w) \<Longrightarrow> timestamps_in_order w \<Longrightarrow> timestamps_in_order (handle r w)"
  by (cases r)
     (simp_all add: create_listing_in_order update_listing_in_order delete_listing_in_order)

lemma serve_in_order:
  "mono (utc_clock w) \<Longrightarrow> timestamps_in_order w \<Longrightarrow>
   timestamps_in_order (serve reqs w) \<and> utc_clock (serve reqs w) = utc_clock w"
  unfolding serve_def
  by (induction reqs arbitrary: w) (simp_all add: handle_in_order)

lemma initial_world_in_order: "timestamps_in_order (initial_world clk ids low)"
  by (simp add: timestamps_in_order_def initial_world_def)

lemma reachable_in_order:
  "mono clk \<Longrightarrow> timestamps_in_order (serve reqs (initial_world clk ids low)) \<and>
     utc_clock (serve reqs (initial_world clk ids low)) = clk"
  using serve_in_order [of "initial_world clk ids low" reqs] initial_world_in_order [of clk ids low]
  by (simp add: initial_world_def)



subsection \<open>Records sit under their identifiers\<close>

lemma stored_under_identifier_iff:
  "stored_under_identifier w \<longleftrightarrow> (\<forall>(k, l) \<in> set (listings_db w). lr_id l = k)"
  by (auto simp: stored_under_identifier_def list_all_iff)

lemma create_listing_identifier:
  assumes "stored_under_identifier w"
  shows "stored_under_identifier (snd (create_listing payload w))"
proof (cases "lr_id (fst (make_listing_read payload w)) \<in> fst ` set (listings_db w)")
  case True
  show ?thesis
    using assms
    by (simp add: create_listing_conflict [OF True] make_listing_read_eq
        stored_under_identifier_iff)
next
  case False
  show ?thesis
    using assms
    by (auto simp: create_listing_created [OF False] make_listing_read_eq
        stored_under_identifier_iff)
qed

lemma update_listing_identifier:
  assumes "stored_under_identifier w"
  shows "stored_under_identifier (snd (update_listing listing_id payload w))"
proof (cases "dict_get (listings_db w) listing_id")
  case None
  then show ?thesis using assms by (simp add: update_listing_not_found)
next
  case (Some existing)
  have "lr_id l = k"
    if "(k, l) \<in> set (AList.update listing_id
      (updated_record listing_id payload existing w) (listings_db w))" for k l
  proof -
    from that consider "k = listing_id" "l = updated_record listing_id payload existing w"
      | "(k, l) \<in> set (listings_db w)"
      using set_update_subset by fastforce
    then show ?thesis
    proof cases
      case 1
      then show ?thesis by (simp add: updated_record_def)
    next
      case 2
      then show ?thesis using assms by (auto simp: stored_under_identifier_iff)
    qed
  qed
  then show ?thesis
    by (auto simp: update_listing_found [OF Some] stored_under_identifier_iff)
qed

lemma delete_listing_identifier:
  assumes "stored_under_identifier w"
  shows "stored_under_identifier (snd (delete_listing listing_id w))"
proof (cases "dict_get (listings_db w) listing_id")
  case None
  then show ?thesis using assms by (simp add: delete_listing_not_found)
next
  case (Some existing)
  show ?thesis
    using assms set_delete_subset [of listing_id "listings_db w"]
    by (fastforce simp: delete_listing_found [OF Some] stored_under_identifier_iff)
qed

lemma handle_identifier:
  "stored_under_identifier w \<Longrightarrow> stored_under_identifier (handle r w)"
  by (cases r)
     (simp_all add: create_listing_identifier update_listing_identifier
        delete_listing_identifier)

lemma serve_identifier:
  "stored_under_identifier w \<Longrightarrow> stored_under_identifier (serve reqs w)"
  unfolding serve_def
  by (induction reqs arbitrary: w) (simp_all add: handle_identifier)

lemma reachable_identifier:
  "stored_under_identifier (serve reqs (initial_world clk ids low))"
  by (rule serve_identifier) (simp add: stored_under_identifier_def initial_world_def)

section \<open>Single criteria\<close>

lemma truthy_all_in:
  "(tags \<noteq> [] \<longrightarrow> list_all (\<lambda>a. a \<in> set xs) tags) \<longleftrightarrow> set tags \<subseteq> set xs"
  by (cases tags) (auto simp: list_all_iff)

lemma acc_amenities:
  "accepted w (q\<lparr>q_amenities := Some tags\<rparr>) l \<longleftrightarrow>
     accepted w (q\<lparr>q_amenities := None\<rparr>) l \<and> set tags \<subseteq> set (lr_amenities l)"
  unfolding accepted_def by (simp add: conj_ac truthy_all_in)

lemma acc_city:
  "accepted w (q\<lparr>q_city := Some c\<rparr>) l \<longleftrightarrow>
     accepted w (q\<lparr>q_city := None\<rparr>) l \<and>
     (c \<noteq> [] \<longrightarrow>
        lower (unicode_lower w) (ar_city (lr_address l)) = lower (unicode_lower w) c)"
  unfolding accepted_def by (simp add: conj_ac)

lemma acc_state:
  "accepted w (q\<lparr>q_state := Some s\<rparr>) l \<longleftrightarrow>
     accepted w (q\<lparr>q_state := None\<rparr>) l \<and>
     (s \<noteq> [] \<longrightarrow> state_matches (unicode_lower w) l s)"
  unfolding accepted_def by (simp add: conj_ac)

lemma acc_min_sqft:
  "accepted w (q\<lparr>q_min_sqft := Some n\<rparr>) l \<longleftrightarrow>
     accepted w (q\<lparr>q_min_sqft := None\<rparr>) l \<and>
     n \<le> (case lr_square_feet l of None \<Rightarrow> 0 | Some v \<Rightarrow> v)"
  unfolding accepted_def square_feet_or_0_eq by (simp add: conj_ac)

lemma acc_max_sqft:
  "accepted w (q\<lparr>q_max_sqft := Some n\<rparr>) l \<longleftrightarrow>
     accepted w (q\<lparr>q_max_sqft := None\<rparr>) l \<and>
     (case lr_square_feet l of None \<Rightarrow> 0 | Some v \<Rightarrow> v) \<le> n"
  unfolding accepted_def square_feet_or_0_eq by (simp add: conj_ac)

lemma acc_is_available:
  "accepted w (q\<lparr>q_is_available := Some b\<rparr>) l \<longleftrightarrow>
     accepted w (q\<lparr>q_is_available := None\<rparr>) l \<and> lr_is_available l = b"
  unfolding accepted_def by (simp add: conj_ac)


section \<open>Create, update and delete\<close>

text \<open>
  Claim C3. The identifier of the record that create builds is the next identifier the
  generator draws. When that identifier is already a key of the store, create raises the
  collision error (status 400, "Listing with this ID already exists") and the store keeps
  its contents; otherwise create appends the built record to the store under that
  identifier, where a lookup finds it, and returns it with the status 201 "created".
\<close>

theorem create_listing_conflict_or_created:
  "lr_id (fst (make_listing_read payload w)) = uuid_source w (uuid_draws w) \<and>
   (dict_contains (listings_db w) (uuid_source w (uuid_draws w)) \<longrightarrow>
      fst (create_listing payload w) =
        Inl (HTTPException 400 ''Listing with this ID already exists'') \<and>
      listings_db (snd (create_listing payload w)) = listings_db w) \<and>
   (\<not> dict_contains (listings_db w) (uuid_source w (uuid_draws w)) \<longrightarrow>
      fst (create_listing payload w) = Inr (201, fst (make_listing_read payload w)) \<and>
      listings_db (snd (create_listing payload w)) =
        listings_db w @ [(uuid_source w (uuid_draws w), fst (make_listing_read payload w))] \<and>
      dict_get (listings_db (snd (create_listing payload w))) (uuid_source w (uuid_draws w)) =
        Some (fst (make_listing_read payload w)))"
proof -
  have fresh: "lr_id (fst (make_listing_read payload w)) = uuid_source w (uuid_draws w)"
    by (simp add: make_listing_read_eq)
  have conflict: "fst (create_listing payload w) =
        Inl (HTTPException 400 ''Listing with this ID already exists'') \<and>
      listings_db (snd (create_listing payload w)) = listings_db w"
    if "dict_contains (listings_db w) (uuid_source w (uuid_draws w))"
    using that create_listing_conflict [of payload w]
    by (simp add: dict_contains_iff fresh make_listing_read_eq)
  have created: "fst (create_listing payload w) = Inr (201, fst (make_listing_read payload w)) \<and>
      listings_db (snd (create_listing payload w)) =
        listings_db w @ [(uuid_source w (uuid_draws w), fst (make_listing_read payload w))] \<and>
      dict_get (listings_db (snd (create_listing payload w))) (uuid_source w (uuid_draws w)) =
        Some (fst (make_listing_read payload w))"
    if "\<not> dict_contains (listings_db w) (uuid_source w (uuid_draws w))"
  proof -
    have new: "lr_id (fst (make_listing_read payload w)) \<notin> fst ` set (listings_db w)"
      using that by (simp add: dict_contains_iff fresh)
    have key: "uuid_source w (uuid_draws w) \<notin> fst ` set (listings_db w)"
      using that by (simp add: dict_contains_iff)
    show ?thesis
      unfolding create_listing_created [OF new] fresh
      by (simp add: dict_get_append_new [OF key])
  qed
  from fresh conflict created show ?thesis by blast
qed

theorem create_listing_conflict_or_created_witness:
  "fst (create_listing (sample_payload ''Loft'' 1500) (sample_world [sample_listing 0 1000])) =
     Inl (HTTPException 400 ''Listing with this ID already exists'') \<and>
   listings_db (snd (create_listing (sample_payload ''Loft'' 1500)
       (sample_world [sample_listing 0 1000]))) = [(0, sample_listing 0 1000)] \<and>
   fst (create_listing (sample_payload ''Loft'' 1500) (sample_world [sample_listing 1 1000])) =
     Inr (201, fst (make_listing_read (sample_payload ''Loft'' 1500)
       (sample_world [sample_listing 1 1000]))) \<and>
   map fst (listings_db (snd (create_listing (sample_payload ''Loft'' 1500)
       (sample_world [sample_listing 1 1000])))) = [1, 0]"
  using create_listing_conflict_or_created
      [of "sample_payload ''Loft'' 1500" "sample_world [sample_listing 0 1000]"]
    create_listing_conflict_or_created
      [of "sample_payload ''Loft'' 1500" "sample_world [sample_listing 1 1000]"]
  by (simp add: dict_contains_def sample_world_def sample_listing_def)

text \<open>
  Claim C4. For an identifier that is not a key of the store, update and delete each
  raise the not-found error (status 404) and leave the whole process state as it was. For
  an identifier that is a key of the store, delete returns no content with status 204
  and removes every entry under that identifier, the record with the address embedded in
  it; all other entries stay, in their order.
\<close>

theorem not_found_and_delete:
  "(\<not> dict_contains (listings_db w) listing_id \<longrightarrow>
      update_listing listing_id payload w = (Inl (HTTPException 404 ''Listing not found''), w) \<and>
      delete_listing listing_id w = (Inl (HTTPException 404 ''Course no found.''), w)) \<and>
   (dict_contains (listings_db w) listing_id \<longrightarrow>
      delete_listing listing_id w =
        (Inr (204, ()), w\<lparr>listings_db := filter (\<lambda>(k, l). k \<noteq> listing_id) (listings_db w)\<rparr>) \<and>
      \<not> dict_contains (listings_db (snd (delete_listing listing_id w))) listing_id \<and>
      (\<forall>k. k \<noteq> listing_id \<longrightarrow>
         dict_get (listings_db (snd (delete_listing listing_id w))) k =
         dict_get (listings_db w) k))"
proof (intro conjI impI allI)
  assume absent: "\<not> dict_contains (listings_db w) listing_id"
  then have none: "dict_get (listings_db w) listing_id = None"
    by (simp add: dict_contains_def dict_get_def)
  show "update_listing listing_id payload w = (Inl (HTTPException 404 ''Listing not found''), w)"
    by (rule update_listing_not_found [OF none])
  show "delete_listing listing_id w = (Inl (HTTPException 404 ''Course no found.''), w)"
    by (rule delete_listing_not_found [OF none])
next
  assume present: "dict_contains (listings_db w) listing_id"
  then obtain existing where some: "dict_get (listings_db w) listing_id = Some existing"
    by (auto simp: dict_contains_def dict_get_def)
  have del: "AList.delete listing_id (listings_db w) =
      filter (\<lambda>(k, l). k \<noteq> listing_id) (listings_db w)"
    by (auto simp: AList.delete_eq intro: filter_cong)
  show "delete_listing listing_id w =
      (Inr (204, ()), w\<lparr>listings_db := filter (\<lambda>(k, l). k \<noteq> listing_id) (listings_db w)\<rparr>)"
    by (simp add: delete_listing_found [OF some] del)
  show "\<not> dict_contains (listings_db (snd (delete_listing listing_id w))) listing_id"
    by (simp add: delete_listing_found [OF some] dict_contains_def delete_conv)
  fix k assume "k \<noteq> listing_id"
  then show "dict_get (listings_db (snd (delete_listing listing_id w))) k =
      dict_get (listings_db w) k"
    by (simp add: delete_listing_found [OF some] dict_get_def)
qed

theorem not_found_and_delete_witness:
  "update_listing 7 (sample_payload ''Loft'' 1500)
       (sample_world [sample_listing 1 1000, sample_listing 2 1500]) =
     (Inl (HTTPException 404 ''Listing not found''),
      sample_world [sample_listing 1 1000, sample_listing 2 1500]) \<and>
   delete_listing 7 (sample_world [sample_listing 1 1000, sample_listing 2 1500]) =
     (Inl (HTTPException 404 ''Course no found.''),
      sample_world [sample_listing 1 1000, sample_listing 2 1500]) \<and>
   delete_listing 1 (sample_world [sample_listing 1 1000, sample_listing 2 1500]) =
     (Inr (204, ()), sample_world [sample_listing 2 1500])"
  using not_found_and_delete
      [of "sample_world [sample_listing 1 1000, sample_listing 2 1500]" 7
          "sample_payload ''Loft'' 1500"]
    not_found_and_delete
      [of "sample_world [sample_listing 1 1000, sample_listing 2 1500]" 1
          "sample_payload ''Loft'' 1500"]
  by (simp add: dict_contains_def sample_world_def sample_listing_def)

text \<open>
  Claim C5. Whenever create succeeds, it does so with status 201, and listing without
  criteria right afterwards returns the records listed before followed by the created
  record, whose title, description, monthly rent, bedrooms, bathrooms, square footage,
  amenities, availability and address (street, city, state, postal code, country) are
  those of the payload.
\<close>

theorem create_then_list_round_trip:
  assumes "fst (create_listing payload w) = Inr (code, created)"
  shows "code = 201 \<and>
    created \<in> set (list_listings no_filters (snd (create_listing payload w))) \<and>
    list_listings no_filters (snd (create_listing payload w)) =
      list_listings no_filters w @ [created] \<and>
    lr_title created = lc_title payload \<and>
    lr_description created = lc_description payload \<and>
    lr_monthly_rent created = lc_monthly_rent payload \<and>
    lr_num_bedrooms created = lc_num_bedrooms payload \<and>
    lr_num_bathrooms created = lc_num_bathrooms payload \<and>
    lr_square_feet created = lc_square_feet payload \<and>
    lr_amenities created = lc_amenities payload \<and>
    lr_is_available created = lc_is_available payload \<and>
    ar_street (lr_address created) = ac_street (lc_address payload) \<and>
    ar_city (lr_address created) = ac_city (lc_address payload) \<and>
    ar_state (lr_address created) = ac_state (lc_address payload) \<and>
    ar_postal_code (lr_address created) = ac_postal_code (lc_address payload) \<and>
    ar_country (lr_address created) = ac_country (lc_address payload)"
proof (cases "lr_id (fst (make_listing_read payload w)) \<in> fst ` set (listings_db w)")
  case True
  with assms show ?thesis
    by (simp add: create_listing_conflict)
next
  case False
  have listed: "list_listings no_filters w' = dict_values (listings_db w')" for w'
    by (simp add: list_listings_filter accepted_no_filters)
  from assms have c: "code = 201" "created = fst (make_listing_read payload w)"
    by (simp_all add: create_listing_created [OF False])
  have db: "listings_db (snd (create_listing payload w)) =
      listings_db w @ [(lr_id created, created)]"
    by (simp add: create_listing_created [OF False] c(2) make_listing_read_eq)
  show ?thesis
    unfolding listed db
    by (simp add: c make_listing_read_eq dict_values_def)
qed

theorem create_then_list_round_trip_witness:
  "fst (create_listing (sample_payload ''Loft'' 1500) (sample_world [sample_listing 1 1000])) =
     Inr (201, fst (make_listing_read (sample_payload ''Loft'' 1500)
       (sample_world [sample_listing 1 1000]))) \<and>
   list_listings no_filters (snd (create_listing (sample_payload ''Loft'' 1500)
       (sample_world [sample_listing 1 1000]))) =
     [sample_listing 1 1000,
      fst (make_listing_read (sample_payload ''Loft'' 1500)
       (sample_world [sample_listing 1 1000]))] \<and>
   lr_title (fst (make_listing_read (sample_payload ''Loft'' 1500)
       (sample_world [sample_listing 1 1000]))) = ''Loft'' \<and>
   ar_city (lr_address (fst (make_listing_read (sample_payload ''Loft'' 1500)
       (sample_world [sample_listing 1 1000])))) = ''New York''"
proof -
  have new: "lr_id (fst (make_listing_read (sample_payload ''Loft'' 1500)
      (sample_world [sample_listing 1 1000])))
      \<notin> fst ` set (listings_db (sample_world [sample_listing 1 1000]))"
    by (simp add: make_listing_read_eq sample_world_def sample_listing_def)
  have ok: "fst (create_listing (sample_payload ''Loft'' 1500)
      (sample_world [sample_listing 1 1000])) =
     Inr (201, fst (make_listing_read (sample_payload ''Loft'' 1500)
       (sample_world [sample_listing 1 1000])))"
    by (simp add: create_listing_created [OF new])
  have old: "list_listings no_filters (sample_world [sample_listing 1 1000]) =
      [sample_listing 1 1000]"
    by (simp add: list_listings_filter accepted_no_filters dict_values_def
        sample_world_def)
  show ?thesis
    using create_then_list_round_trip [OF ok] ok old
    by (simp add: sample_payload_def)
qed


text \<open>
  Claim C2, as stated, fails when the clock runs backwards: with a clock that reads 0,
  -1, -2, -3, ..., the record created first in an empty store carries the update timestamp 0, and
  updating it answers 200 and stores a record with the update timestamp -3.
\<close>

theorem update_with_backward_clock_counterexample:
  "map_option lr_updated_at (dict_get (listings_db
      (serve [Create (sample_payload ''Loft'' 1500)]
        (initial_world (\<lambda>n. - int n) (\<lambda>n. of_nat n) sample_unicode_lower))) 0) = Some 0 \<and>
   (case fst (update_listing 0 (sample_payload ''Studio'' 1200)
      (serve [Create (sample_payload ''Loft'' 1500)]
        (initial_world (\<lambda>n. - int n) (\<lambda>n. of_nat n) sample_unicode_lower))) of
      Inl e \<Rightarrow> None
    | Inr (code, new) \<Rightarrow> Some (code, lr_updated_at new)) = Some (200, - 3) \<and>
   map_option lr_updated_at (dict_get (listings_db
      (snd (update_listing 0 (sample_payload ''Studio'' 1200)
        (serve [Create (sample_payload ''Loft'' 1500)]
          (initial_world (\<lambda>n. - int n) (\<lambda>n. of_nat n) sample_unicode_lower))))) 0)
     = Some (- 3)"
  by (simp add: serve_def create_listing_def update_listing_def make_listing_read_def
      make_address_read_def utcnow_def uuid4_def initial_world_def dict_contains_def
      dict_get_def dict_setitem_def Let_def)

text \<open>
  Claim C2, amended. For every existing identifier and every payload, update returns,
  with status 200, a record that is then stored under that identifier, that carries the
  identifier (the one of the existing record, in every state the application reaches
  from the empty store) and the creation timestamp of the existing record, whose update
  timestamp is the clock reading taken by the update after the address is built (no
  earlier than the previous update timestamp whenever the state is reached under a clock
  that never runs backwards), that embeds the address built from the payload by
  \<^verbatim>\<open>make_address_read\<close>, whose identifier is the one drawn from the generator during
  this call, and that takes every other field from the payload.
\<close>

theorem update_listing_rebuilds_record:
  assumes found: "dict_get (listings_db w) listing_id = Some existing"
  shows "\<exists>new w'. update_listing listing_id payload w = (Inr (200, new), w') \<and>
    dict_get (listings_db w') listing_id = Some new \<and>
    lr_id new = listing_id \<and>
    (w = serve reqs (initial_world clk ids low) \<longrightarrow> lr_id new = lr_id existing) \<and>
    lr_created_at new = lr_created_at existing \<and>
    lr_updated_at new = fst (utcnow (snd (make_address_read (lc_address payload) w))) \<and>
    (w = serve reqs (initial_world clk ids low) \<and> mono clk \<longrightarrow>
       lr_updated_at existing \<le> lr_updated_at new) \<and>
    lr_address new = fst (make_address_read (lc_address payload) w) \<and>
    ar_id (lr_address new) = fst (uuid4 w) \<and>
    uuid_draws w' = Suc (uuid_draws w) \<and>
    ar_street (lr_address new) = ac_street (lc_address payload) \<and>
    ar_city (lr_address new) = ac_city (lc_address payload) \<and>
    ar_state (lr_address new) = ac_state (lc_address payload) \<and>
    ar_postal_code (lr_address new) = ac_postal_code (lc_address payload) \<and>
    ar_country (lr_address new) = ac_country (lc_address payload) \<and>
    lr_title new = lc_title payload \<and>
    lr_description new = lc_description payload \<and>
    lr_monthly_rent new = lc_monthly_rent payload \<and>
    lr_num_bedrooms new = lc_num_bedrooms payload \<and>
    lr_num_bathrooms new = lc_num_bathrooms payload \<and>
    lr_square_feet new = lc_square_feet payload \<and>
    lr_amenities new = lc_amenities payload \<and>
    lr_is_available new = lc_is_available payload"
proof -
  have mem: "(listing_id, existing) \<in> set (listings_db w)"
    using found by (simp add: dict_get_def map_of_SomeD)
  have ident: "lr_id existing = listing_id"
    if "w = serve reqs (initial_world clk ids low)"
    using reachable_identifier [of reqs clk ids low] that mem
    by (auto simp: stored_under_identifier_iff)
  have later: "lr_updated_at existing \<le> utc_clock w (Suc (clock_reads w))"
    if "w = serve reqs (initial_world clk ids low) \<and> mono clk"
  proof -
    from that have inv: "timestamps_in_order w" and clk: "utc_clock w = clk"
      using reachable_in_order [of clk reqs ids low] by simp_all
    have before: "lr_updated_at existing \<le> utc_clock w (clock_reads w)"
      using inv mem by (fastforce simp: timestamps_in_order_def)
    show ?thesis
      using clock_le [of w, OF _ before, of "Suc (clock_reads w)"] that clk by simp
  qed
  have stored: "dict_get (AList.update listing_id v (listings_db w)) listing_id = Some v" for v
    by (simp add: dict_get_def update_conv)
  show ?thesis
    unfolding update_listing_found [OF found]
    using ident later
    by (simp add: stored updated_record_def make_address_read_eq uuid4_def utcnow_def)
qed

theorem update_listing_rebuilds_record_witness:
  "mono (\<lambda>n. int n) \<and>
   dict_get (listings_db (serve [Create (sample_payload ''Loft'' 1500)]
        (initial_world (\<lambda>n. int n) (\<lambda>n. of_nat n) sample_unicode_lower))) 0 =
     Some (fst (make_listing_read (sample_payload ''Loft'' 1500)
        (initial_world (\<lambda>n. int n) (\<lambda>n. of_nat n) sample_unicode_lower))) \<and>
   (\<exists>new w'. update_listing 0 (sample_payload ''Studio'' 1200)
        (serve [Create (sample_payload ''Loft'' 1500)]
          (initial_world (\<lambda>n. int n) (\<lambda>n. of_nat n) sample_unicode_lower))
          = (Inr (200, new), w') \<and>
      dict_get (listings_db w') 0 = Some new \<and>
      lr_id new = 0 \<and> lr_created_at new = 0 \<and> lr_updated_at new = 3 \<and>
      lr_updated_at (fst (make_listing_read (sample_payload ''Loft'' 1500)
        (initial_world (\<lambda>n. int n) (\<lambda>n. of_nat n) sample_unicode_lower)))
        \<le> lr_updated_at new \<and>
      ar_id (lr_address new) = 2 \<and>
      lr_title new = ''Studio'' \<and> lr_monthly_rent new = 1200)"
proof -
  let ?init = "initial_world (\<lambda>n. int n) (\<lambda>n. of_nat n) sample_unicode_lower"
  let ?W = "serve [Create (sample_payload ''Loft'' 1500)] ?init"
  let ?E = "fst (make_listing_read (sample_payload ''Loft'' 1500) ?init)"
  let ?P = "sample_payload ''Studio'' 1200"
  have clock: "mono (\<lambda>n. int n)"
    by (simp add: mono_def)
  have new: "lr_id ?E \<notin> fst ` set (listings_db ?init)"
    by (simp add: initial_world_def)
  have world: "?W = (snd (make_listing_read (sample_payload ''Loft'' 1500) ?init))
      \<lparr>listings_db := [(lr_id ?E, ?E)]\<rparr>"
    by (simp add: serve_def create_listing_created [OF new]) (simp add: initial_world_def)
  have found: "dict_get (listings_db ?W) 0 = Some ?E"
    unfolding world by (simp add: dict_get_def make_listing_read_eq initial_world_def)
  have draw: "fst (uuid4 ?W) = 2"
    unfolding world by (simp add: uuid4_def make_listing_read_eq initial_world_def)
  have reading: "fst (utcnow (snd (make_address_read (lc_address ?P) ?W))) = 3"
    unfolding world
    by (simp add: utcnow_def make_address_read_eq make_listing_read_eq initial_world_def)
  have old: "lr_created_at ?E = 0" "lr_updated_at ?E = 0"
    by (simp_all add: make_listing_read_eq initial_world_def)
  have payload: "lc_title ?P = ''Studio''" "lc_monthly_rent ?P = 1200"
    by (simp_all add: sample_payload_def)
  from update_listing_rebuilds_record
    [OF found, where payload = ?P and reqs = "[Create (sample_payload ''Loft'' 1500)]"
      and clk = "\<lambda>n. int n" and ids = "\<lambda>n. of_nat n" and low = sample_unicode_lower]
  obtain new w' where
    "?W = ?W \<and> mono (\<lambda>n. int n) \<longrightarrow> lr_updated_at ?E \<le> lr_updated_at new"
    "update_listing 0 ?P ?W = (Inr (200, new), w')"
    "dict_get (listings_db w') 0 = Some new"
    "lr_id new = 0"
    "lr_created_at new = lr_created_at ?E"
    "lr_updated_at new = fst (utcnow (snd (make_address_read (lc_address ?P) ?W)))"
    "ar_id (lr_address new) = fst (uuid4 ?W)"
    "lr_title new = lc_title ?P"
    "lr_monthly_rent new = lc_monthly_rent ?P"
    by blast
  then have "update_listing 0 ?P ?W = (Inr (200, new), w') \<and>
      dict_get (listings_db w') 0 = Some new \<and>
      lr_id new = 0 \<and> lr_created_at new = 0 \<and> lr_updated_at new = 3 \<and>
      lr_updated_at (fst (make_listing_read (sample_payload ''Loft'' 1500)
        (initial_world (\<lambda>n. int n) (\<lambda>n. of_nat n) sample_unicode_lower)))
        \<le> lr_updated_at new \<and>
      ar_id (lr_address new) = 2 \<and>
      lr_title new = ''Studio'' \<and> lr_monthly_rent new = 1200"
    using clock by (simp add: draw reading old payload)
  then have "\<exists>new w'. update_listing 0 ?P ?W = (Inr (200, new), w') \<and>
      dict_get (listings_db w') 0 = Some new \<and>
      lr_id new = 0 \<and> lr_created_at new = 0 \<and> lr_updated_at new = 3 \<and>
      lr_updated_at (fst (make_listing_read (sample_payload ''Loft'' 1500)
        (initial_world (\<lambda>n. int n) (\<lambda>n. of_nat n) sample_unicode_lower)))
        \<le> lr_updated_at new \<and>
      ar_id (lr_address new) = 2 \<and>
      lr_title new = ''Studio'' \<and> lr_monthly_rent new = 1200"
    by blast
  with clock found show ?thesis
    by (intro conjI)
qed

section \<open>Timestamps\<close>

text \<open>
  Claim C9. The address builder and the listing builder each set the creation and the
  update timestamp of the record they build to one reading of the clock, the current
  instant of the call. Under a clock that never runs backwards, create, update and delete
  keep the timestamps of the store in order, and so every record in every state reached
  from the empty store, and the address it embeds, was updated no earlier than it was
  created.
\<close>

theorem timestamps_stay_in_order:
  "ar_created_at (fst (make_address_read addr w)) = utc_clock w (clock_reads w) \<and>
   ar_updated_at (fst (make_address_read addr w)) = utc_clock w (clock_reads w) \<and>
   lr_created_at (fst (make_listing_read payload w)) = utc_clock w (clock_reads w) \<and>
   lr_updated_at (fst (make_listing_read payload w)) = utc_clock w (clock_reads w) \<and>
   ar_created_at (lr_address (fst (make_listing_read payload w))) =
     ar_updated_at (lr_address (fst (make_listing_read payload w))) \<and>
   (mono (utc_clock w) \<and> timestamps_in_order w \<longrightarrow>
      timestamps_in_order (snd (create_listing payload w)) \<and>
      timestamps_in_order (snd (update_listing listing_id payload w)) \<and>
      timestamps_in_order (snd (delete_listing listing_id w))) \<and>
   (mono clk \<longrightarrow>
      (\<forall>l \<in> set (dict_values (listings_db (serve reqs (initial_world clk ids low)))).
         lr_created_at l \<le> lr_updated_at l \<and>
         ar_created_at (lr_address l) \<le> ar_updated_at (lr_address l)))"
proof -
  have builders:
    "ar_created_at (fst (make_address_read addr w)) = utc_clock w (clock_reads w)"
    "ar_updated_at (fst (make_address_read addr w)) = utc_clock w (clock_reads w)"
    "lr_created_at (fst (make_listing_read payload w)) = utc_clock w (clock_reads w)"
    "lr_updated_at (fst (make_listing_read payload w)) = utc_clock w (clock_reads w)"
    "ar_created_at (lr_address (fst (make_listing_read payload w))) =
     ar_updated_at (lr_address (fst (make_listing_read payload w)))"
    by (simp_all add: make_address_read_eq make_listing_read_eq)
  have kept: "timestamps_in_order (snd (create_listing payload w)) \<and>
      timestamps_in_order (snd (update_listing listing_id payload w)) \<and>
      timestamps_in_order (snd (delete_listing listing_id w))"
    if "mono (utc_clock w) \<and> timestamps_in_order w"
    using that
    by (simp add: create_listing_in_order update_listing_in_order delete_listing_in_order)
  have reached: "\<forall>l \<in> set (dict_values (listings_db (serve reqs (initial_world clk ids low)))).
         lr_created_at l \<le> lr_updated_at l \<and>
         ar_created_at (lr_address l) \<le> ar_updated_at (lr_address l)"
    if "mono clk"
    using reachable_in_order [OF that, of reqs ids]
    by (fastforce simp: timestamps_in_order_def dict_values_def)
  from builders kept reached show ?thesis
    by (intro conjI impI) simp_all
qed

theorem timestamps_stay_in_order_witness:
  "mono (\<lambda>n. int n) \<and>
   timestamps_in_order (sample_world [sample_listing 1 1000]) \<and>
   timestamps_in_order (snd (create_listing (sample_payload ''Loft'' 1500)
     (sample_world [sample_listing 1 1000]))) \<and>
   timestamps_in_order (snd (update_listing 1 (sample_payload ''Loft'' 1500)
     (sample_world [sample_listing 1 1000]))) \<and>
   timestamps_in_order (snd (delete_listing 1 (sample_world [sample_listing 1 1000]))) \<and>
   list_all
     (\<lambda>l. lr_created_at l \<le> lr_updated_at l \<and>
        ar_created_at (lr_address l) \<le> ar_updated_at (lr_address l))
     (dict_values (listings_db
        (serve [Create (sample_payload ''Loft'' 1500), Update 0 (sample_payload ''Studio'' 1200)]
          (initial_world (\<lambda>n. int n) (\<lambda>n. of_nat n) sample_unicode_lower))))"
proof -
  have clock: "mono (\<lambda>n. int n)"
    by (simp add: mono_def)
  have clock': "mono (utc_clock (sample_world [sample_listing 1 1000]))"
    by (simp add: sample_world_def mono_def)
  have start: "timestamps_in_order (sample_world [sample_listing 1 1000])"
    by (simp add: timestamps_in_order_def sample_world_def sample_listing_def
        sample_address_def)
  show ?thesis
    using timestamps_stay_in_order
      [of "lc_address (sample_payload ''Loft'' 1500)" "sample_world [sample_listing 1 1000]"
          "sample_payload ''Loft'' 1500" 1
          "\<lambda>n. int n"
          "[Create (sample_payload ''Loft'' 1500), Update 0 (sample_payload ''Studio'' 1200)]"
          "\<lambda>n. of_nat n"]
      clock clock' start
    by (simp add: list_all_iff)
qed


section \<open>Amenities, city, state and square footage\<close>

text \<open>
  Claim C6. A listing passes the amenities criterion exactly when each requested tag
  occurs among its amenities, compared as exact text: for any other criteria, the query
  with the amenities returns a listing if and only if the query without them returns it
  and the listing has every tag. A listing with the amenities Gym and Pool matches the
  request for Gym, and neither the request for Gym and Sauna nor the request for gym in
  lower case.
\<close>

theorem amenities_filter_is_subset_test:
  "(l \<in> set (list_listings (q\<lparr>q_amenities := Some tags\<rparr>) w) \<longleftrightarrow>
      l \<in> set (list_listings (q\<lparr>q_amenities := None\<rparr>) w) \<and>
      (\<forall>t \<in> set tags. t \<in> set (lr_amenities l))) \<and>
   list_listings (no_filters\<lparr>q_amenities := Some [''Gym'']\<rparr>)
       (sample_world [sample_listing 1 1500]) = [sample_listing 1 1500] \<and>
   list_listings (no_filters\<lparr>q_amenities := Some [''Gym'', ''Sauna'']\<rparr>)
       (sample_world [sample_listing 1 1500]) = [] \<and>
   list_listings (no_filters\<lparr>q_amenities := Some [''gym'']\<rparr>)
       (sample_world [sample_listing 1 1500]) = [] \<and>
   lr_amenities (sample_listing 1 1500) = [''Gym'', ''Pool'']"
proof -
  have general: "l \<in> set (list_listings (q\<lparr>q_amenities := Some tags\<rparr>) w) \<longleftrightarrow>
      l \<in> set (list_listings (q\<lparr>q_amenities := None\<rparr>) w) \<and>
      (\<forall>t \<in> set tags. t \<in> set (lr_amenities l))"
    by (auto simp: set_list_listings acc_amenities)
  have examples:
    "list_listings (no_filters\<lparr>q_amenities := Some [''Gym'']\<rparr>)
       (sample_world [sample_listing 1 1500]) = [sample_listing 1 1500]"
    "list_listings (no_filters\<lparr>q_amenities := Some [''Gym'', ''Sauna'']\<rparr>)
       (sample_world [sample_listing 1 1500]) = []"
    "list_listings (no_filters\<lparr>q_amenities := Some [''gym'']\<rparr>)
       (sample_world [sample_listing 1 1500]) = []"
    "lr_amenities (sample_listing 1 1500) = [''Gym'', ''Pool'']"
    by (simp_all add: list_listings_filter accepted_def sample_defs)
  from general examples show ?thesis by (intro conjI)
qed

theorem amenities_filter_is_subset_test_witness:
  "sample_listing 2 1500 \<in> set (list_listings
      (no_filters\<lparr>q_max_rent := Some 1800, q_amenities := Some [''Pool'', ''Gym'']\<rparr>)
      (sample_world [sample_listing 1 1000, sample_listing 2 1500])) \<and>
   sample_listing 2 1500 \<notin> set (list_listings
      (no_filters\<lparr>q_max_rent := Some 1800, q_amenities := Some [''Pool'', ''Doorman'']\<rparr>)
      (sample_world [sample_listing 1 1000, sample_listing 2 1500]))"
proof -
  have without: "sample_listing 2 1500 \<in> set (list_listings
      (no_filters\<lparr>q_max_rent := Some 1800, q_amenities := None\<rparr>)
      (sample_world [sample_listing 1 1000, sample_listing 2 1500]))"
    by (simp add: list_listings_filter accepted_def sample_defs)
  show ?thesis
    using without
      amenities_filter_is_subset_test
        [where l = "sample_listing 2 1500" and q = "no_filters\<lparr>q_max_rent := Some 1800\<rparr>"
            and tags = "[''Pool'', ''Gym'']"
            and w = "sample_world [sample_listing 1 1000, sample_listing 2 1500]"]
      amenities_filter_is_subset_test
        [where l = "sample_listing 2 1500" and q = "no_filters\<lparr>q_max_rent := Some 1800\<rparr>"
            and tags = "[''Pool'', ''Doorman'']"
            and w = "sample_world [sample_listing 1 1000, sample_listing 2 1500]"]
    by (simp add: sample_listing_def)
qed





text \<open>
  Claim C8, as stated, fails for a negative upper bound: a stored listing without square
  footage does not pass the criterion of at most -1 square feet.
\<close>

theorem negative_max_sqft_counterexample:
  "lr_square_feet ((sample_listing 1 1500)\<lparr>lr_square_feet := None\<rparr>) = None \<and>
   list_listings no_filters (sample_world [(sample_listing 1 1500)\<lparr>lr_square_feet := None\<rparr>])
     = [(sample_listing 1 1500)\<lparr>lr_square_feet := None\<rparr>] \<and>
   list_listings (no_filters\<lparr>q_max_sqft := Some (- 1)\<rparr>)
       (sample_world [(sample_listing 1 1500)\<lparr>lr_square_feet := None\<rparr>]) = []"
  by (simp add: list_listings_def square_feet_or_0_def sample_defs)

text \<open>
  Claim C8, amended. The bounds on the square footage are inclusive, and a listing
  without square footage is compared as if it had 0 square feet: it passes an upper bound
  exactly when the bound is at least 0, and a lower bound exactly when the bound is at
  most 0.
\<close>

theorem sqft_bounds_inclusive_missing_is_zero:
  "(l \<in> set (list_listings (q\<lparr>q_min_sqft := Some n\<rparr>) w) \<longleftrightarrow>
      l \<in> set (list_listings (q\<lparr>q_min_sqft := None\<rparr>) w) \<and>
      n \<le> (case lr_square_feet l of None \<Rightarrow> 0 | Some v \<Rightarrow> v)) \<and>
   (l \<in> set (list_listings (q\<lparr>q_max_sqft := Some n\<rparr>) w) \<longleftrightarrow>
      l \<in> set (list_listings (q\<lparr>q_max_sqft := None\<rparr>) w) \<and>
      (case lr_square_feet l of None \<Rightarrow> 0 | Some v \<Rightarrow> v) \<le> n) \<and>
   (lr_square_feet l = None \<longrightarrow>
      (l \<in> set (list_listings (q\<lparr>q_max_sqft := Some n\<rparr>) w) \<longleftrightarrow>
         l \<in> set (list_listings (q\<lparr>q_max_sqft := None\<rparr>) w) \<and> 0 \<le> n) \<and>
      (l \<in> set (list_listings (q\<lparr>q_min_sqft := Some n\<rparr>) w) \<longleftrightarrow>
         l \<in> set (list_listings (q\<lparr>q_min_sqft := None\<rparr>) w) \<and> n \<le> 0))"
proof -
  have lower_bound: "l \<in> set (list_listings (q\<lparr>q_min_sqft := Some n\<rparr>) w) \<longleftrightarrow>
      l \<in> set (list_listings (q\<lparr>q_min_sqft := None\<rparr>) w) \<and>
      n \<le> (case lr_square_feet l of None \<Rightarrow> 0 | Some v \<Rightarrow> v)"
    by (simp add: set_list_listings acc_min_sqft conj_ac)
  have upper_bound: "l \<in> set (list_listings (q\<lparr>q_max_sqft := Some n\<rparr>) w) \<longleftrightarrow>
      l \<in> set (list_listings (q\<lparr>q_max_sqft := None\<rparr>) w) \<and>
      (case lr_square_feet l of None \<Rightarrow> 0 | Some v \<Rightarrow> v) \<le> n"
    by (simp add: set_list_listings acc_max_sqft conj_ac)
  have missing: "(l \<in> set (list_listings (q\<lparr>q_max_sqft := Some n\<rparr>) w) \<longleftrightarrow>
         l \<in> set (list_listings (q\<lparr>q_max_sqft := None\<rparr>) w) \<and> 0 \<le> n) \<and>
      (l \<in> set (list_listings (q\<lparr>q_min_sqft := Some n\<rparr>) w) \<longleftrightarrow>
         l \<in> set (list_listings (q\<lparr>q_min_sqft := None\<rparr>) w) \<and> n \<le> 0)"
    if "lr_square_feet l = None"
    unfolding lower_bound upper_bound using that by simp
  from missing have missing': "lr_square_feet l = None \<longrightarrow>
      (l \<in> set (list_listings (q\<lparr>q_max_sqft := Some n\<rparr>) w) \<longleftrightarrow>
         l \<in> set (list_listings (q\<lparr>q_max_sqft := None\<rparr>) w) \<and> 0 \<le> n) \<and>
      (l \<in> set (list_listings (q\<lparr>q_min_sqft := Some n\<rparr>) w) \<longleftrightarrow>
         l \<in> set (list_listings (q\<lparr>q_min_sqft := None\<rparr>) w) \<and> n \<le> 0)"
    by (rule impI)
  from lower_bound upper_bound missing' show ?thesis
    by (intro conjI)
qed

theorem sqft_bounds_inclusive_missing_is_zero_witness:
  "(sample_listing 1 1500)\<lparr>lr_square_feet := None\<rparr> \<in> set (list_listings
      (no_filters\<lparr>q_max_sqft := Some 0\<rparr>)
      (sample_world [(sample_listing 1 1500)\<lparr>lr_square_feet := None\<rparr>])) \<and>
   (sample_listing 1 1500)\<lparr>lr_square_feet := None\<rparr> \<in> set (list_listings
      (no_filters\<lparr>q_min_sqft := Some 0\<rparr>)
      (sample_world [(sample_listing 1 1500)\<lparr>lr_square_feet := None\<rparr>]))"
proof -
  have without:
    "(sample_listing 1 1500)\<lparr>lr_square_feet := None\<rparr> \<in> set (list_listings
      (no_filters\<lparr>q_max_sqft := None\<rparr>)
      (sample_world [(sample_listing 1 1500)\<lparr>lr_square_feet := None\<rparr>]))"
    "(sample_listing 1 1500)\<lparr>lr_square_feet := None\<rparr> \<in> set (list_listings
      (no_filters\<lparr>q_min_sqft := None\<rparr>)
      (sample_world [(sample_listing 1 1500)\<lparr>lr_square_feet := None\<rparr>]))"
    by (simp_all add: list_listings_filter accepted_def sample_defs)
  show ?thesis
    using without
      sqft_bounds_inclusive_missing_is_zero
        [where l = "(sample_listing 1 1500)\<lparr>lr_square_feet := None\<rparr>" and n = 0
           and q = no_filters
           and w = "sample_world [(sample_listing 1 1500)\<lparr>lr_square_feet := None\<rparr>]"]
    by simp
qed


text \<open>
  Claim C10. With any other criteria, a query with the empty list of amenities, the empty
  city text or the empty state text returns what the query without that criterion
  returns. The availability \<^verbatim>\<open>False\<close> is a criterion of its own: it keeps exactly the
  listings that are not available, and so on a store with one available listing the
  query returns nothing where the query without the criterion returns the listing.
\<close>

theorem empty_filter_values_count_as_absent:
  "list_listings (q\<lparr>q_amenities := Some []\<rparr>) w = list_listings (q\<lparr>q_amenities := None\<rparr>) w \<and>
   list_listings (q\<lparr>q_city := Some ''''\<rparr>) w = list_listings (q\<lparr>q_city := None\<rparr>) w \<and>
   list_listings (q\<lparr>q_state := Some ''''\<rparr>) w = list_listings (q\<lparr>q_state := None\<rparr>) w \<and>
   list_listings (q\<lparr>q_is_available := Some False\<rparr>) w =
     filter (\<lambda>l. \<not> lr_is_available l) (list_listings (q\<lparr>q_is_available := None\<rparr>) w) \<and>
   list_listings (no_filters\<lparr>q_is_available := Some False\<rparr>)
       (sample_world [sample_listing 1 1500]) = [] \<and>
   list_listings (no_filters\<lparr>q_is_available := None\<rparr>)
       (sample_world [sample_listing 1 1500]) = [sample_listing 1 1500]"
proof -
  have amenities: "accepted w (q\<lparr>q_amenities := Some []\<rparr>) =
      accepted w (q\<lparr>q_amenities := None\<rparr>)"
    by (rule ext) (simp add: acc_amenities)
  have city: "accepted w (q\<lparr>q_city := Some ''''\<rparr>) = accepted w (q\<lparr>q_city := None\<rparr>)"
    by (rule ext) (simp add: acc_city)
  have state: "accepted w (q\<lparr>q_state := Some ''''\<rparr>) = accepted w (q\<lparr>q_state := None\<rparr>)"
    by (rule ext) (simp add: acc_state)
  have available: "accepted w (q\<lparr>q_is_available := Some False\<rparr>) =
      (\<lambda>l. accepted w (q\<lparr>q_is_available := None\<rparr>) l \<and> \<not> lr_is_available l)"
    by (rule ext) (simp add: acc_is_available)
  have examples:
    "list_listings (no_filters\<lparr>q_is_available := Some False\<rparr>)
       (sample_world [sample_listing 1 1500]) = []"
    "list_listings (no_filters\<lparr>q_is_available := None\<rparr>)
       (sample_world [sample_listing 1 1500]) = [sample_listing 1 1500]"
    by (simp_all add: list_listings_def sample_defs)
  show ?thesis
    unfolding list_listings_filter amenities city state available
    using examples [unfolded list_listings_filter]
    by (simp only: filter_filter simp_thms)
qed

theorem empty_filter_values_count_as_absent_witness:
  "list_listings (no_filters\<lparr>q_min_rent := Some 1200, q_amenities := Some [], q_city := Some '''',
        q_state := Some ''''\<rparr>)
      (sample_world [sample_listing 1 1000, sample_listing 2 1500, sample_listing 3 2000]) =
     [sample_listing 2 1500, sample_listing 3 2000] \<and>
   list_listings (no_filters\<lparr>q_min_rent := Some 1200, q_is_available := Some False\<rparr>)
      (sample_world [sample_listing 1 1000, sample_listing 2 1500, sample_listing 3 2000]) = []"
proof -
  let ?w = "sample_world [sample_listing 1 1000, sample_listing 2 1500, sample_listing 3 2000]"
  have base: "list_listings (no_filters\<lparr>q_min_rent := Some 1200\<rparr>) ?w =
      [sample_listing 2 1500, sample_listing 3 2000]"
    by (simp add: list_listings_def sample_defs)
  have same: "no_filters\<lparr>q_min_rent := Some 1200, q_amenities := None, q_city := None,
      q_state := None\<rparr> = no_filters\<lparr>q_min_rent := Some 1200\<rparr>"
    "no_filters\<lparr>q_min_rent := Some 1200, q_is_available := None\<rparr> =
      no_filters\<lparr>q_min_rent := Some 1200\<rparr>"
    by (simp_all add: no_filters_def)
  show ?thesis
    using base
      empty_filter_values_count_as_absent
        [where q = "no_filters\<lparr>q_min_rent := Some 1200, q_city := Some '''',
            q_state := Some ''''\<rparr>" and w = ?w]
      empty_filter_values_count_as_absent
        [where q = "no_filters\<lparr>q_min_rent := Some 1200, q_state := Some ''''\<rparr>" and w = ?w]
      empty_filter_values_count_as_absent
        [where q = "no_filters\<lparr>q_min_rent := Some 1200\<rparr>" and w = ?w]
    by (simp add: no_filters_def sample_listing_def)
qed


end
